theory Spec2Isabelle
  imports Main "HOL-Library.Word"
begin

section \<open>The canonical-chain manager of go-nebulas (core/blockchain.go)\<close>

text \<open>
  A shallow embedding of \<^verbatim>\<open>core/blockchain.go\<close>. Every method of \<^verbatim>\<open>BlockChain\<close>
  that the properties below are about is a HOL function of the same name which takes
  the receiver as its first argument and returns the updated receiver next to the
  method's result. A nil pointer is \<open>None\<close>, a Go \<^verbatim>\<open>error\<close> is a value of the datatype
  \<open>error\<close>, and a loop that walks parent hashes (and may therefore run forever on a
  store whose parent links form a cycle) is a \<^theory_text>\<open>partial_function\<close> in the option
  monad, where \<open>None\<close> stands for "does not return".

  Metrics (gauges, meters, timers) and log lines do not influence any result and are
  left out.
\<close>

subsection \<open>Blocks, hashes and errors\<close>

type_synonym byte = "8 word"

text \<open>\<^verbatim>\<open>byteutils.Hash\<close> is a byte slice.\<close>

type_synonym Hash = "byte list"

datatype transaction = Tx Hash

text \<open>
  The attributes of \<^verbatim>\<open>Block\<close> that blockchain.go reads: \<^verbatim>\<open>header.hash\<close>,
  \<^verbatim>\<open>header.parentHash\<close>, \<^verbatim>\<open>height\<close> (uint64), the header's chain id (uint32, read
  through \<^verbatim>\<open>ChainID()\<close>) and \<^verbatim>\<open>transactions\<close>.
\<close>

record block =
  hash :: Hash
  parentHash :: Hash
  height :: "64 word"
  ChainID :: "32 word"
  transactions :: "transaction list"

text \<open>
  The errors that blockchain.go names, \<^verbatim>\<open>storage.ErrKeyNotFound\<close>, and the errors of
  the collaborators, which the code only passes on: an I/O error of the key-value
  store, a failure to encode or decode a block, and any other error (of the pools or
  the genesis builder). The number tells two errors of one kind apart.
\<close>

datatype error =
    ErrMissingParentBlock
  | ErrCannotFindBlockAtGivenHeight
  | ErrGenesisConfNotMatch
  | ErrKeyNotFound
  | ErrStorageIO nat
  | ErrEncoding nat
  | ErrOther nat

subsection \<open>The LRU cache (github.com/hashicorp/golang-lru)\<close>

text \<open>
  Modelled from the spec: the LRU cache is an external library (sections 4.2, 4.3 and
  9 of the specification): a bounded map ordered by recency, with \<^verbatim>\<open>Get\<close>,
  \<^verbatim>\<open>ContainsOrAdd\<close> ("if the key exists, do nothing; else insert (LRU eviction may
  follow)"), \<^verbatim>\<open>Remove\<close> and \<^verbatim>\<open>Keys\<close>. The entries are kept most recently used first;
  an insertion that exceeds the capacity drops the last (least recently used) entry;
  \<^verbatim>\<open>Get\<close> moves the entry it finds to the front.
\<close>

record 'v Cache =
  capacity :: nat
  entries :: "(string \<times> 'v) list"

definition lru_New :: "nat \<Rightarrow> 'v Cache" where
  "lru_New n = \<lparr>capacity = n, entries = []\<rparr>"

definition lru_Contains :: "'v Cache \<Rightarrow> string \<Rightarrow> bool" where
  "lru_Contains c k = (k \<in> fst ` set (entries c))"

definition lru_Add :: "'v Cache \<Rightarrow> string \<Rightarrow> 'v \<Rightarrow> 'v Cache" where
  "lru_Add c k v =
     (let es = (k, v) # filter (\<lambda>e. fst e \<noteq> k) (entries c)
      in c\<lparr>entries := (if length es > capacity c then butlast es else es)\<rparr>)"

definition lru_ContainsOrAdd :: "'v Cache \<Rightarrow> string \<Rightarrow> 'v \<Rightarrow> 'v Cache" where
  "lru_ContainsOrAdd c k v = (if lru_Contains c k then c else lru_Add c k v)"

definition lru_Remove :: "'v Cache \<Rightarrow> string \<Rightarrow> 'v Cache" where
  "lru_Remove c k = c\<lparr>entries := filter (\<lambda>e. fst e \<noteq> k) (entries c)\<rparr>"

definition lru_Get :: "'v Cache \<Rightarrow> string \<Rightarrow> 'v option \<times> 'v Cache" where
  "lru_Get c k =
     (case map_of (entries c) k of
        None \<Rightarrow> (None, c)
      | Some v \<Rightarrow> (Some v, c\<lparr>entries := (k, v) # filter (\<lambda>e. fst e \<noteq> k) (entries c)\<rparr>))"

definition lru_Keys :: "'v Cache \<Rightarrow> string list" where
  "lru_Keys c = rev (map fst (entries c))"

text \<open>
  Modelled from the spec: \<^verbatim>\<open>Hash.Hex()\<close> of byteutils (not under src/), the
  "hex-encoded hash" that keys both caches: two lower-case hexadecimal digits per byte.
\<close>

definition hexdigit :: "nat \<Rightarrow> char" where
  "hexdigit n = ''0123456789abcdef'' ! (n mod 16)"

definition Hex :: "Hash \<Rightarrow> string" where
  "Hex h = concat (map (\<lambda>b. [hexdigit (unat b div 16), hexdigit (unat b mod 16)]) h)"

subsection \<open>The key-value store\<close>

text \<open>
  The storage collaborator offers \<^verbatim>\<open>Get(key)\<close> and \<^verbatim>\<open>Put(key, value)\<close>, each of which
  may fail. blockchain.go uses three kinds of key, listed in its opening comment
  (\<^verbatim>\<open>blockchain_tail -> tail block hash\<close>, \<^verbatim>\<open>block hash -> block\<close>,
  \<^verbatim>\<open>height -> block hash\<close>) and disjoint by shape (the 15 bytes of the literal, a
  32-byte hash, the 8 bytes of \<^verbatim>\<open>byteutils.FromUint64\<close>). The store is therefore
  three maps, one per kind of key. What is stored under a block hash is a byte string
  that either decodes to a block or does not.

  A failing store is part of the model: \<open>getErr\<close> and \<open>putErr\<close> say for which keys
  \<^verbatim>\<open>Get\<close> and \<^verbatim>\<open>Put\<close> return an error other than a plain result, and which one.
\<close>

datatype key = TailKey | HeightKey "64 word" | HashKey Hash

datatype stored = Marshalled block | Malformed

record Storage =
  blockRecords :: "Hash \<rightharpoonup> stored"
  heightIndex :: "64 word \<rightharpoonup> Hash"
  tailPointer :: "Hash option"
  getErr :: "key \<Rightarrow> error option"
  putErr :: "key \<Rightarrow> error option"

definition Get_block :: "Storage \<Rightarrow> Hash \<Rightarrow> error + stored" where
  "Get_block s h =
     (case getErr s (HashKey h) of
        Some e \<Rightarrow> Inl e
      | None \<Rightarrow> (case blockRecords s h of None \<Rightarrow> Inl ErrKeyNotFound | Some v \<Rightarrow> Inr v))"

definition Get_height :: "Storage \<Rightarrow> 64 word \<Rightarrow> error + Hash" where
  "Get_height s n =
     (case getErr s (HeightKey n) of
        Some e \<Rightarrow> Inl e
      | None \<Rightarrow> (case heightIndex s n of None \<Rightarrow> Inl ErrKeyNotFound | Some v \<Rightarrow> Inr v))"

definition Get_tail :: "Storage \<Rightarrow> error + Hash" where
  "Get_tail s =
     (case getErr s TailKey of
        Some e \<Rightarrow> Inl e
      | None \<Rightarrow> (case tailPointer s of None \<Rightarrow> Inl ErrKeyNotFound | Some v \<Rightarrow> Inr v))"

definition Put_block :: "Storage \<Rightarrow> Hash \<Rightarrow> stored \<Rightarrow> error + Storage" where
  "Put_block s h v =
     (case putErr s (HashKey h) of
        Some e \<Rightarrow> Inl e
      | None \<Rightarrow> Inr (s\<lparr>blockRecords := (blockRecords s)(h \<mapsto> v)\<rparr>))"

definition Put_height :: "Storage \<Rightarrow> 64 word \<Rightarrow> Hash \<Rightarrow> error + Storage" where
  "Put_height s n h =
     (case putErr s (HeightKey n) of
        Some e \<Rightarrow> Inl e
      | None \<Rightarrow> Inr (s\<lparr>heightIndex := (heightIndex s)(n \<mapsto> h)\<rparr>))"

definition Put_tail :: "Storage \<Rightarrow> Hash \<Rightarrow> error + Storage" where
  "Put_tail s h =
     (case putErr s TailKey of
        Some e \<Rightarrow> Inl e
      | None \<Rightarrow> Inr (s\<lparr>tailPointer := Some h\<rparr>))"

text \<open>
  Modelled from the spec: \<^verbatim>\<open>LoadBlockFromStorage\<close> (block.go, not under src/), section
  4.1: "fetch bytes; if absent, return miss; otherwise decode. Decoding failure is a
  fatal data-corruption signal"; a storage error is passed on unchanged.
\<close>

definition LoadBlockFromStorage :: "Hash \<Rightarrow> Storage \<Rightarrow> error + block" where
  "LoadBlockFromStorage h s =
     (case Get_block s h of
        Inl e \<Rightarrow> Inl e
      | Inr Malformed \<Rightarrow> Inl (ErrEncoding 0)
      | Inr (Marshalled b) \<Rightarrow> Inr b)"

subsection \<open>The chain\<close>

text \<open>\<^verbatim>\<open>corepb.Genesis\<close>: of the configuration only \<^verbatim>\<open>Meta.ChainId\<close> is read.\<close>

record Genesis =
  ChainId :: "32 word"

text \<open>
  Modelled from the spec: \<^verbatim>\<open>Block.ReturnTransactions\<close> (block.go, not under src/)
  "moves its transactions back into the pending transaction pool". The transaction
  pool is modelled by what this file does to it: the list of the blocks whose
  transactions were handed back, oldest call first.
\<close>

type_synonym TransactionPool = "block list"

definition ReturnTransactions :: "block \<Rightarrow> TransactionPool \<Rightarrow> TransactionPool" where
  "ReturnTransactions b pool = pool @ [b]"

record BlockChain =
  chainID :: "32 word"
  genesis :: Genesis
  genesisBlock :: block
  tailBlock :: block
  txPool :: TransactionPool
  cachedBlocks :: "block Cache"
  detachedTailBlocks :: "block Cache"
  storage :: Storage

subsection \<open>Block lookup\<close>

definition GetBlock :: "BlockChain \<Rightarrow> Hash \<Rightarrow> block option \<times> BlockChain" where
  "GetBlock bc h =
     (case lru_Get (cachedBlocks bc) (Hex h) of
        (None, c) \<Rightarrow>
          (case LoadBlockFromStorage h (storage bc) of
             Inl err \<Rightarrow> (None, bc\<lparr>cachedBlocks := c\<rparr>)
           | Inr b \<Rightarrow> (Some b, bc\<lparr>cachedBlocks := c\<rparr>))
      | (Some b, c) \<Rightarrow> (Some b, bc\<lparr>cachedBlocks := c\<rparr>))"

definition GetBlockByHeight :: "BlockChain \<Rightarrow> 64 word \<Rightarrow> block option \<times> BlockChain" where
  "GetBlockByHeight bc n =
     (case Get_height (storage bc) n of
        Inl err \<Rightarrow> (None, bc)
      | Inr blockHash \<Rightarrow> GetBlock bc blockHash)"

subsection \<open>Reverting and reindexing\<close>

partial_function (option) revertBlocks ::
  "BlockChain \<Rightarrow> block \<Rightarrow> block \<Rightarrow> (error option \<times> BlockChain) option" where
  "revertBlocks bc frm reverted =
     (if hash reverted = hash frm then Some (None, bc)
      else
        (case GetBlock (bc\<lparr>txPool := ReturnTransactions reverted (txPool bc)\<rparr>)
                (parentHash reverted) of
           (None, bc') \<Rightarrow> Some (Some ErrMissingParentBlock, bc')
         | (Some parent, bc') \<Rightarrow> revertBlocks bc' frm parent))"

partial_function (option) buildIndexByBlockHeight ::
  "BlockChain \<Rightarrow> block \<Rightarrow> block \<Rightarrow> (error option \<times> BlockChain) option" where
  "buildIndexByBlockHeight bc frm to =
     (if hash to = hash frm then Some (None, bc)
      else
        (case Put_height (storage bc) (height to) (hash to) of
           Inl err \<Rightarrow> Some (Some err, bc)
         | Inr s \<Rightarrow>
             (case GetBlock (bc\<lparr>storage := s\<rparr>) (parentHash to) of
                (None, bc') \<Rightarrow> Some (Some ErrMissingParentBlock, bc')
              | (Some parent, bc') \<Rightarrow> buildIndexByBlockHeight bc' frm parent)))"

declare revertBlocks.simps [code]
declare buildIndexByBlockHeight.simps [code]

text \<open>
  \<^verbatim>\<open>storeTailToStorage\<close> and \<^verbatim>\<open>storeBlockToStorage\<close> touch nothing of the receiver but
  \<^verbatim>\<open>bc.storage\<close>, and run while \<^verbatim>\<open>NewBlockChain\<close> is still building the receiver: they
  take and return the store.
\<close>

definition storeTailToStorage :: "Storage \<Rightarrow> block \<Rightarrow> error + Storage" where
  "storeTailToStorage s b = Put_tail s (hash b)"

subsection \<open>The common ancestor with the tail\<close>

text \<open>The three loops of \<^verbatim>\<open>FindCommonAncestorWithTail\<close>, in the order of the source.\<close>

partial_function (option) walkTailDown ::
  "BlockChain \<Rightarrow> block \<Rightarrow> block \<Rightarrow> ((error + block) \<times> BlockChain) option" where
  "walkTailDown bc tail target =
     (if height tail > height target then
        (case GetBlock bc (parentHash tail) of
           (None, bc') \<Rightarrow> Some (Inl ErrMissingParentBlock, bc')
         | (Some tail', bc') \<Rightarrow> walkTailDown bc' tail' target)
      else Some (Inr tail, bc))"

partial_function (option) walkTargetDown ::
  "BlockChain \<Rightarrow> block \<Rightarrow> block \<Rightarrow> ((error + block) \<times> BlockChain) option" where
  "walkTargetDown bc tail target =
     (if height tail < height target then
        (case GetBlock bc (parentHash target) of
           (None, bc') \<Rightarrow> Some (Inl ErrMissingParentBlock, bc')
         | (Some target', bc') \<Rightarrow> walkTargetDown bc' tail target')
      else Some (Inr target, bc))"

partial_function (option) walkToMeet ::
  "BlockChain \<Rightarrow> block \<Rightarrow> block \<Rightarrow> ((error + block) \<times> BlockChain) option" where
  "walkToMeet bc tail target =
     (if hash tail \<noteq> hash target then
        (case GetBlock bc (parentHash tail) of
           (tail', bc1) \<Rightarrow>
             (case GetBlock bc1 (parentHash target) of
                (target', bc2) \<Rightarrow>
                  (case tail' of
                     None \<Rightarrow> Some (Inl ErrMissingParentBlock, bc2)
                   | Some t \<Rightarrow>
                       (case target' of
                          None \<Rightarrow> Some (Inl ErrMissingParentBlock, bc2)
                        | Some g \<Rightarrow> walkToMeet bc2 t g))))
      else Some (Inr target, bc))"

declare walkTailDown.simps [code]
declare walkTargetDown.simps [code]
declare walkToMeet.simps [code]

definition FindCommonAncestorWithTail ::
  "BlockChain \<Rightarrow> block \<Rightarrow> ((error + block) \<times> BlockChain) option" where
  "FindCommonAncestorWithTail bc blk =
     (let tail = tailBlock bc;
          (localBlock, bc1) =
             (if height tail \<ge> height blk then GetBlockByHeight bc (height blk)
              else (None, bc))
      in if (case localBlock of None \<Rightarrow> False | Some lb \<Rightarrow> hash lb = hash blk)
         then Some (Inr blk, bc1)
         else
           (let (target, bc2) = GetBlock bc1 (hash blk);
                (target, bc3) =
                   (if target = None then GetBlock bc2 (parentHash blk) else (target, bc2))
            in case target of
                 None \<Rightarrow> Some (Inl ErrMissingParentBlock, bc3)
               | Some target \<Rightarrow>
                   (case walkTailDown bc3 tail target of
                      None \<Rightarrow> None
                    | Some (Inl err, bc4) \<Rightarrow> Some (Inl err, bc4)
                    | Some (Inr tail, bc4) \<Rightarrow>
                        (case walkTargetDown bc4 tail target of
                           None \<Rightarrow> None
                         | Some (Inl err, bc5) \<Rightarrow> Some (Inl err, bc5)
                         | Some (Inr target, bc5) \<Rightarrow> walkToMeet bc5 tail target))))"

subsection \<open>Setting the tail\<close>

definition SetTailBlock ::
  "BlockChain \<Rightarrow> block \<Rightarrow> (error option \<times> BlockChain) option" where
  "SetTailBlock bc newTail =
     (let oldTail = tailBlock bc
      in case FindCommonAncestorWithTail bc newTail of
           None \<Rightarrow> None
         | Some (Inl err, bc1) \<Rightarrow> Some (Some err, bc1)
         | Some (Inr ancestor, bc1) \<Rightarrow>
             (case revertBlocks bc1 ancestor oldTail of
                None \<Rightarrow> None
              | Some (reverr, bc2) \<Rightarrow>
                  (case buildIndexByBlockHeight bc2 ancestor newTail of
                     None \<Rightarrow> None
                   | Some (Some err, bc3) \<Rightarrow> Some (Some err, bc3)
                   | Some (None, bc3) \<Rightarrow>
                       (case storeTailToStorage (storage bc3) newTail of
                          Inl err \<Rightarrow> Some (Some err, bc3)
                        | Inr s \<Rightarrow> Some (None, bc3\<lparr>storage := s, tailBlock := newTail\<rparr>)))))"

subsection \<open>Descendants on the canonical chain\<close>

text \<open>
  The loop of \<^verbatim>\<open>FetchDescendantInCanonicalChain\<close>; \<open>n\<close> is \<^verbatim>\<open>uint64(n)\<close>. All of
  \<^verbatim>\<open>curHeight\<close>, \<^verbatim>\<open>tailHeight\<close> and \<^verbatim>\<open>index\<close> are uint64 and the sum wraps around. The
  loop ends because \<open>index\<close> grows and stays below \<open>n\<close>.
\<close>

function FetchDescendant_loop ::
  "BlockChain \<Rightarrow> 64 word \<Rightarrow> 64 word \<Rightarrow> 64 word \<Rightarrow> 64 word \<Rightarrow> block list
     \<Rightarrow> (error + block list) \<times> BlockChain" where
  "FetchDescendant_loop bc curHeight tailHeight n index res =
     (if curHeight + index \<le> tailHeight \<and> index < n then
        (case GetBlockByHeight bc (curHeight + index) of
           (None, bc') \<Rightarrow> (Inl ErrCannotFindBlockAtGivenHeight, bc')
         | (Some b, bc') \<Rightarrow>
             FetchDescendant_loop bc' curHeight tailHeight n (index + 1) (res @ [b]))
      else (Inr res, bc))"
  by pat_completeness auto
termination
proof (relation "measure (\<lambda>(bc, curHeight, tailHeight, n, index, res). unat n - unat index)")
  show "wf (measure (\<lambda>(bc, curHeight, tailHeight, n, index, res). unat n - unat index))"
    by simp
next
  fix bc :: BlockChain and curHeight tailHeight n index :: "64 word"
    and res :: "block list" and x :: "block option \<times> BlockChain"
    and bo :: "block option" and bc' :: BlockChain and b :: block
  assume "curHeight + index \<le> tailHeight \<and> index < n"
  then have lt: "index < n" by simp
  then have "unat n - unat (index + 1) < unat n - unat index"
    by unat_arith
  then show
    "((bc', curHeight, tailHeight, n, index + 1, res @ [b]),
      (bc, curHeight, tailHeight, n, index, res))
     \<in> measure (\<lambda>(bc, curHeight, tailHeight, n, index, res). unat n - unat index)"
    by simp
qed

declare FetchDescendant_loop.simps [simp del]

text \<open>
  The parameter \<open>n\<close> is a Go \<^verbatim>\<open>int\<close>, here a 64-bit two's complement value (\<open>sint n\<close>
  is the number it stands for); \<^verbatim>\<open>uint64(n)\<close> keeps its bits.
\<close>

definition FetchDescendantInCanonicalChain ::
  "BlockChain \<Rightarrow> 64 word \<Rightarrow> block \<Rightarrow> (error + block list) \<times> BlockChain" where
  "FetchDescendantInCanonicalChain bc n blk =
     FetchDescendant_loop bc (height blk + 1) (height (tailBlock bc)) n 0 []"

subsection \<open>Collaborators that are not in this file\<close>

text \<open>
  The functions of other files that \<^verbatim>\<open>NewBlockChain\<close> and \<^verbatim>\<open>storeBlockToStorage\<close> call
  are parameters: whether \<^verbatim>\<open>block.ToProto\<close> followed by \<^verbatim>\<open>proto.Marshal\<close> fails on a
  block, the constant \<^verbatim>\<open>GenesisHash\<close>, and the results of \<^verbatim>\<open>NewBlockPool\<close>,
  \<^verbatim>\<open>NewTransactionPool\<close>, \<^verbatim>\<open>NewGenesisBlock\<close> and \<^verbatim>\<open>DumpGenesis\<close>.
\<close>

record Collaborators =
  marshalErr :: "block \<Rightarrow> error option"
  GenesisHash :: Hash
  NewBlockPool :: "nat \<Rightarrow> error option"
  NewTransactionPool :: "nat \<Rightarrow> error option"
  NewGenesisBlock :: "Genesis \<Rightarrow> error + block"
  DumpGenesis :: "Storage \<Rightarrow> error + Genesis"

definition storeBlockToStorage :: "Collaborators \<Rightarrow> Storage \<Rightarrow> block \<Rightarrow> error + Storage" where
  "storeBlockToStorage co s b =
     (case marshalErr co b of
        Some err \<Rightarrow> Inl err
      | None \<Rightarrow> Put_block s (hash b) (Marshalled b))"

subsection \<open>Accepting verified blocks\<close>

text \<open>The first loop of \<^verbatim>\<open>putVerifiedNewBlocks\<close>, over \<^verbatim>\<open>allBlocks\<close>.\<close>

fun putVerifiedNewBlocks_all ::
  "Collaborators \<Rightarrow> BlockChain \<Rightarrow> block list \<Rightarrow> error option \<times> BlockChain" where
  "putVerifiedNewBlocks_all co bc [] = (None, bc)"
| "putVerifiedNewBlocks_all co bc (v # vs) =
     (let bc1 = bc\<lparr>cachedBlocks := lru_ContainsOrAdd (cachedBlocks bc) (Hex (hash v)) v\<rparr>
      in case storeBlockToStorage co (storage bc1) v of
           Inl err \<Rightarrow> (Some err, bc1)
         | Inr s \<Rightarrow> putVerifiedNewBlocks_all co (bc1\<lparr>storage := s\<rparr>) vs)"

text \<open>The second loop, over \<^verbatim>\<open>tailBlocks\<close>.\<close>

fun putVerifiedNewBlocks_tails :: "block Cache \<Rightarrow> block list \<Rightarrow> block Cache" where
  "putVerifiedNewBlocks_tails c [] = c"
| "putVerifiedNewBlocks_tails c (v # vs) =
     putVerifiedNewBlocks_tails (lru_ContainsOrAdd c (Hex (hash v)) v) vs"

definition putVerifiedNewBlocks ::
  "Collaborators \<Rightarrow> BlockChain \<Rightarrow> block \<Rightarrow> block list \<Rightarrow> block list
     \<Rightarrow> error option \<times> BlockChain" where
  "putVerifiedNewBlocks co bc parent allBlocks tailBlocks =
     (case putVerifiedNewBlocks_all co bc allBlocks of
        (Some err, bc1) \<Rightarrow> (Some err, bc1)
      | (None, bc1) \<Rightarrow>
          (let tails = putVerifiedNewBlocks_tails (detachedTailBlocks bc1) tailBlocks
           in (None, bc1\<lparr>detachedTailBlocks := lru_Remove tails (Hex (hash parent))\<rparr>)))"

subsection \<open>Bootstrap\<close>

definition loadGenesisFromStorage ::
  "Collaborators \<Rightarrow> Genesis \<Rightarrow> Storage \<Rightarrow> (error + block) \<times> Storage" where
  "loadGenesisFromStorage co conf s =
     (case LoadBlockFromStorage (GenesisHash co) s of
        Inl err \<Rightarrow>
          (case NewGenesisBlock co conf of
             Inl err \<Rightarrow> (Inl err, s)
           | Inr g \<Rightarrow>
               (case storeBlockToStorage co s g of
                  Inl err \<Rightarrow> (Inl err, s)
                | Inr s1 \<Rightarrow>
                    (case Put_height s1 (height g) (hash g) of
                       Inl err \<Rightarrow> (Inl err, s1)
                     | Inr s2 \<Rightarrow> (Inr g, s2))))
      | Inr g \<Rightarrow>
          (if ChainId conf \<noteq> ChainID g then (Inl ErrGenesisConfNotMatch, s)
           else (Inr g, s)))"

definition loadTailFromStorage ::
  "Collaborators \<Rightarrow> Genesis \<Rightarrow> Storage \<Rightarrow> (error + block) \<times> Storage" where
  "loadTailFromStorage co conf s =
     (case Get_tail s of
        Inl err \<Rightarrow>
          (if err \<noteq> ErrKeyNotFound then (Inl err, s)
           else
             (case loadGenesisFromStorage co conf s of
                (Inl err, s1) \<Rightarrow> (Inl err, s1)
              | (Inr g, s1) \<Rightarrow>
                  (case storeTailToStorage s1 g of
                     Inl err \<Rightarrow> (Inl err, s1)
                   | Inr s2 \<Rightarrow> (Inr g, s2))))
      | Inr h \<Rightarrow> (LoadBlockFromStorage h s, s))"

text \<open>\<^verbatim>\<open>Neblet\<close>: the configured genesis and the store it hands out.\<close>

record Neblet =
  neb_Genesis :: Genesis
  neb_Storage :: Storage

text \<open>
  \<^verbatim>\<open>NewBlockChain\<close> returns the new instance or the error (the Go pair of which one
  component is nil), and the store as the call leaves it.
\<close>

definition NewBlockChain ::
  "Collaborators \<Rightarrow> Neblet \<Rightarrow> (error + BlockChain) \<times> Storage" where
  "NewBlockChain co neb =
     (let s = neb_Storage neb in
      case NewBlockPool co 1024 of
        Some err \<Rightarrow> (Inl err, s)
      | None \<Rightarrow>
          (case NewTransactionPool co 65536 of
             Some err \<Rightarrow> (Inl err, s)
           | None \<Rightarrow>
               (case loadGenesisFromStorage co (neb_Genesis neb) s of
                  (Inl err, s1) \<Rightarrow> (Inl err, s1)
                | (Inr g, s1) \<Rightarrow>
                    (case DumpGenesis co s1 of
                       Inl err \<Rightarrow> (Inl err, s1)
                     | Inr genesisConf \<Rightarrow>
                         (case loadTailFromStorage co (neb_Genesis neb) s1 of
                            (Inl err, s2) \<Rightarrow> (Inl err, s2)
                          | (Inr t, s2) \<Rightarrow>
                              (Inr \<lparr>chainID = ChainId (neb_Genesis neb),
                                    genesis = neb_Genesis neb,
                                    genesisBlock = g,
                                    tailBlock = t,
                                    txPool = [],
                                    cachedBlocks = lru_New 1024,
                                    detachedTailBlocks = lru_New 64,
                                    storage = s2\<rparr>, s2))))))"

subsection \<open>A small chain for concrete runs\<close>

text \<open>
  The chain of the specification's scenarios 2 and 3: a genesis block, the branch
  \<open>G \<leftarrow> B1 \<leftarrow> B2\<close> and the fork \<open>G \<leftarrow> C1 \<leftarrow> C2 \<leftarrow> C3\<close> (the scenario's primed
  blocks). A block is named by its one-byte hash.
\<close>

definition mkBlock :: "byte \<Rightarrow> byte \<Rightarrow> 64 word \<Rightarrow> block" where
  "mkBlock h p n = \<lparr>hash = [h], parentHash = [p], height = n, ChainID = 1, transactions = []\<rparr>"

definition blkG :: block where "blkG = mkBlock 0 255 0"
definition blkB1 :: block where "blkB1 = mkBlock 1 0 1"
definition blkB2 :: block where "blkB2 = mkBlock 2 1 2"
definition blkC1 :: block where "blkC1 = mkBlock 11 0 1"
definition blkC2 :: block where "blkC2 = mkBlock 12 11 2"
definition blkC3 :: block where "blkC3 = mkBlock 13 12 3"

definition noErr :: "key \<Rightarrow> error option" where
  "noErr k = None"

text \<open>A store that holds the genesis block only, as the first start leaves it.\<close>

definition exStoreG :: Storage where
  "exStoreG = \<lparr>blockRecords = [[0] \<mapsto> Marshalled blkG],
      heightIndex = [0 \<mapsto> [0]], tailPointer = Some [0], getErr = noErr, putErr = noErr\<rparr>"

text \<open>A store with both branches, the height index following \<open>G, B1, B2\<close>.\<close>

definition exStore :: Storage where
  "exStore = \<lparr>blockRecords =
        [[0] \<mapsto> Marshalled blkG, [1] \<mapsto> Marshalled blkB1, [2] \<mapsto> Marshalled blkB2,
         [11] \<mapsto> Marshalled blkC1, [12] \<mapsto> Marshalled blkC2, [13] \<mapsto> Marshalled blkC3],
      heightIndex = [0 \<mapsto> [0], 1 \<mapsto> [1], 2 \<mapsto> [2]],
      tailPointer = Some [2], getErr = noErr, putErr = noErr\<rparr>"

definition exChain :: "Storage \<Rightarrow> block \<Rightarrow> BlockChain" where
  "exChain s t = \<lparr>chainID = 1, genesis = \<lparr>ChainId = 1\<rparr>, genesisBlock = blkG, tailBlock = t,
      txPool = [], cachedBlocks = lru_New 1024, detachedTailBlocks = lru_New 64, storage = s\<rparr>"

definition exCollab :: Collaborators where
  "exCollab = \<lparr>marshalErr = (\<lambda>b. None), GenesisHash = [0],
     NewBlockPool = (\<lambda>n. None), NewTransactionPool = (\<lambda>n. None),
     NewGenesisBlock = (\<lambda>g. Inr (blkG\<lparr>ChainID := ChainId g\<rparr>)),
     DumpGenesis = (\<lambda>s. Inr \<lparr>ChainId = 1\<rparr>)\<rparr>"

subsection \<open>What a lookup returns\<close>

text \<open>
  \<^verbatim>\<open>GetBlock\<close> changes the receiver only in the order of the cache's entries. The block
  it returns is a function of the cache's and the store's contents, \<open>lookup\<close>; the
  receiver it leaves is \<open>touch\<close>.
\<close>

definition lookup :: "BlockChain \<Rightarrow> Hash \<Rightarrow> block option" where
  "lookup bc h =
     (case map_of (entries (cachedBlocks bc)) (Hex h) of
        Some b \<Rightarrow> Some b
      | None \<Rightarrow> (case LoadBlockFromStorage h (storage bc) of Inl e \<Rightarrow> None | Inr b \<Rightarrow> Some b))"

definition touch :: "BlockChain \<Rightarrow> Hash \<Rightarrow> BlockChain" where
  "touch bc h = bc\<lparr>cachedBlocks := snd (lru_Get (cachedBlocks bc) (Hex h))\<rparr>"

subsection \<open>The specification's words, for comparison with the code\<close>

text \<open>
  Section 4.3 of the specification updates the detached-tails set in this order:
  "1. Remove \<open>P.hash\<close> from C3. 2. Insert each \<open>T\<^sub>i.hash\<close> into C3."
\<close>

definition specDetachedUpdate :: "block Cache \<Rightarrow> block \<Rightarrow> block list \<Rightarrow> block Cache" where
  "specDetachedUpdate c parent tailBlocks =
     putVerifiedNewBlocks_tails (lru_Remove c (Hex (hash parent))) tailBlocks"

text \<open>
  Invariant 5 of the specification, "C2 contains only blocks that are also in C1": for
  every block in the cache, the store holds under the block's hash a record that decodes
  to a block of that hash.
\<close>

definition storedBlock :: "Storage \<Rightarrow> block \<Rightarrow> bool" where
  "storedBlock s b =
     (case blockRecords s (hash b) of
        Some (Marshalled b') \<Rightarrow> hash b' = hash b
      | _ \<Rightarrow> False)"

definition cachedInStorage :: "BlockChain \<Rightarrow> bool" where
  "cachedInStorage bc =
     list_all (\<lambda>e. storedBlock (storage bc) (snd e)) (entries (cachedBlocks bc))"

subsection \<open>Stores that fail, a full set of tails\<close>

text \<open>
  The store of the two branches, in which the record of \<open>B2\<close> does not decode and
  reading the record of \<open>B1\<close> or the index entry of height 1 is an I/O error.
\<close>

definition exStoreBad :: Storage where
  "exStoreBad = exStore\<lparr>blockRecords := (blockRecords exStore)([2] \<mapsto> Malformed),
      getErr := (\<lambda>k. if k = HashKey [1] \<or> k = HeightKey 1 then Some (ErrStorageIO 5) else None)\<rparr>"

text \<open>The genesis-only store, in which writing the record of \<open>B1\<close> is an I/O error.\<close>

definition exStoreNoPut :: Storage where
  "exStoreNoPut = exStoreG\<lparr>putErr :=
      (\<lambda>k. if k = HashKey [1] then Some (ErrStorageIO 9) else None)\<rparr>"

text \<open>
  A detached-tails set that holds its 64 entries, the blocks of hash 100 to 163, the
  first the most recently used.
\<close>

definition exFullTails :: "block Cache" where
  "exFullTails = \<lparr>capacity = 64,
      entries = map (\<lambda>i. (Hex [of_nat i], mkBlock (of_nat i) 0 1)) [100 ..< 164]\<rparr>"

text \<open>
  A chain whose store holds the branch \<open>G, B1, B2\<close> only and whose cache holds \<open>B2\<close>.
\<close>

definition exStoreB :: Storage where
  "exStoreB = \<lparr>blockRecords =
        [[0] \<mapsto> Marshalled blkG, [1] \<mapsto> Marshalled blkB1, [2] \<mapsto> Marshalled blkB2],
      heightIndex = [0 \<mapsto> [0], 1 \<mapsto> [1], 2 \<mapsto> [2]],
      tailPointer = Some [2], getErr = noErr, putErr = noErr\<rparr>"

definition exChainCached :: BlockChain where
  "exChainCached = (exChain exStoreB blkB2)
      \<lparr>cachedBlocks := \<lparr>capacity = 1024, entries = [(Hex (hash blkB2), blkB2)]\<rparr>\<rparr>"

section \<open>Properties\<close>

subsection \<open>Bootstrap: the stored genesis must match the configuration\<close>

text \<open>
  C9. When \<^verbatim>\<open>loadGenesisFromStorage\<close> finds a genesis block in the store whose chain id
  differs from the configured one, it returns \<^verbatim>\<open>ErrGenesisConfNotMatch\<close> and leaves the
  store as it was; \<^verbatim>\<open>NewBlockChain\<close> then returns an error and no instance, and the error
  is \<^verbatim>\<open>ErrGenesisConfNotMatch\<close> whenever the two pools were created (the only steps before
  the genesis is loaded).
\<close>

theorem NewBlockChain_GenesisConfNotMatch:
  assumes "LoadBlockFromStorage (GenesisHash co) (neb_Storage neb) = Inr g"
    and "ChainID g \<noteq> ChainId (neb_Genesis neb)"
  shows "loadGenesisFromStorage co (neb_Genesis neb) (neb_Storage neb)
           = (Inl ErrGenesisConfNotMatch, neb_Storage neb)
       \<and> (\<exists>err. fst (NewBlockChain co neb) = Inl err)
       \<and> (NewBlockPool co 1024 = None \<longrightarrow> NewTransactionPool co 65536 = None \<longrightarrow>
            NewBlockChain co neb = (Inl ErrGenesisConfNotMatch, neb_Storage neb))"
proof -
  have lg: "loadGenesisFromStorage co (neb_Genesis neb) (neb_Storage neb)
           = (Inl ErrGenesisConfNotMatch, neb_Storage neb)"
    using assms by (auto simp: loadGenesisFromStorage_def)
  then show ?thesis
    by (simp add: NewBlockChain_def Let_def split: option.splits)
qed

text \<open>Scenario 6 of the specification: the stored genesis has chain id 1, the configuration 2.\<close>

theorem NewBlockChain_GenesisConfNotMatch_witness:
  "LoadBlockFromStorage (GenesisHash exCollab) exStoreG = Inr blkG
   \<and> ChainID blkG \<noteq> ChainId \<lparr>ChainId = 2\<rparr>
   \<and> NewBlockChain exCollab \<lparr>neb_Genesis = \<lparr>ChainId = 2\<rparr>, neb_Storage = exStoreG\<rparr>
       = (Inl ErrGenesisConfNotMatch, exStoreG)"
proof -
  have a: "LoadBlockFromStorage (GenesisHash exCollab)
             (neb_Storage \<lparr>neb_Genesis = \<lparr>ChainId = 2\<rparr>, neb_Storage = exStoreG\<rparr>)
           = Inr blkG"
    by (simp add: LoadBlockFromStorage_def Get_block_def exCollab_def exStoreG_def noErr_def)
  have b: "ChainID blkG
           \<noteq> ChainId (neb_Genesis \<lparr>neb_Genesis = \<lparr>ChainId = 2\<rparr>, neb_Storage = exStoreG\<rparr>)"
    by (simp add: blkG_def mkBlock_def)
  have c: "NewBlockPool exCollab 1024 = None" "NewTransactionPool exCollab 65536 = None"
    by (simp_all add: exCollab_def)
  from NewBlockChain_GenesisConfNotMatch [OF a b] c a b show ?thesis by simp
qed

subsection \<open>The cache and \<^verbatim>\<open>GetBlock\<close>\<close>

lemma map_of_filter_other: "x \<noteq> k \<Longrightarrow> map_of (filter (\<lambda>e. fst e \<noteq> k) es) x = map_of es x"
  by (induction es) auto

lemma map_of_move_front:
  "map_of es k = Some v \<Longrightarrow> (map_of (filter (\<lambda>e. fst e \<noteq> k) es))(k \<mapsto> v) = map_of es"
  by (rule ext) (simp add: map_of_filter_other)

lemma lru_Get_fst: "fst (lru_Get c k) = map_of (entries c) k"
  by (simp add: lru_Get_def split: option.splits)

lemma lru_Get_map_of: "map_of (entries (snd (lru_Get c k))) = map_of (entries c)"
  by (simp add: lru_Get_def map_of_move_front split: option.splits)

lemma lru_Get_set: "set (entries (snd (lru_Get c k))) \<subseteq> set (entries c)"
  by (auto simp: lru_Get_def split: option.splits dest: map_of_SomeD)

lemma GetBlock_eq: "GetBlock bc h = (lookup bc h, touch bc h)"
  by (simp add: GetBlock_def lookup_def touch_def lru_Get_def split: option.splits sum.splits)

lemma lookup_touch: "lookup (touch bc h) = lookup bc"
  by (rule ext) (simp add: lookup_def touch_def lru_Get_map_of split: option.splits)

lemma touch_frame:
  "storage (touch bc h) = storage bc" "tailBlock (touch bc h) = tailBlock bc"
  "txPool (touch bc h) = txPool bc" "detachedTailBlocks (touch bc h) = detachedTailBlocks bc"
  by (simp_all add: touch_def)

lemma lru_Contains_map_of: "lru_Contains c k = (map_of (entries c) k \<noteq> None)"
  by (simp add: lru_Contains_def map_of_eq_None_iff)

text \<open>
  C5, as the code has it. \<^verbatim>\<open>GetBlock\<close> and \<^verbatim>\<open>GetBlockByHeight\<close> return a block or nil
  and nothing else. \<^verbatim>\<open>GetBlock\<close> returns nil exactly when the hash is not cached and
  the load from the store fails for any reason: \<^verbatim>\<open>Get\<close> returns an error of any kind, the
  key is absent, or the bytes do not decode. \<^verbatim>\<open>GetBlockByHeight\<close> returns nil exactly
  when reading the index entry fails for any reason or \<^verbatim>\<open>GetBlock\<close> of the entry returns
  nil. No error reaches the caller.
\<close>

theorem GetBlock_nil_iff:
  "(fst (GetBlock bc h) = None) =
     (\<not> lru_Contains (cachedBlocks bc) (Hex h) \<and>
      ((\<exists>err. getErr (storage bc) (HashKey h) = Some err)
       \<or> blockRecords (storage bc) h = None
       \<or> blockRecords (storage bc) h = Some Malformed))
   \<and> (fst (GetBlockByHeight bc n) = None) =
     ((\<exists>err. getErr (storage bc) (HeightKey n) = Some err)
      \<or> heightIndex (storage bc) n = None
      \<or> (\<exists>x. heightIndex (storage bc) n = Some x \<and> fst (GetBlock bc x) = None))"
proof -
  have a: "(fst (GetBlock bc h) = None) =
     (\<not> lru_Contains (cachedBlocks bc) (Hex h) \<and>
      ((\<exists>err. getErr (storage bc) (HashKey h) = Some err)
       \<or> blockRecords (storage bc) h = None
       \<or> blockRecords (storage bc) h = Some Malformed))"
    by (auto simp: GetBlock_eq lookup_def lru_Contains_map_of LoadBlockFromStorage_def
          Get_block_def split: option.splits sum.splits stored.splits)
  have b: "(fst (GetBlockByHeight bc n) = None) =
     ((\<exists>err. getErr (storage bc) (HeightKey n) = Some err)
      \<or> heightIndex (storage bc) n = None
      \<or> (\<exists>x. heightIndex (storage bc) n = Some x \<and> fst (GetBlock bc x) = None))"
    by (auto simp: GetBlockByHeight_def Get_height_def split: option.splits sum.splits)
  from a b show ?thesis by blast
qed

theorem GetBlock_nil_iff_witness:
  "fst (GetBlock (exChain exStoreBad blkB2) [2]) = None
   \<and> fst (GetBlockByHeight (exChain exStoreBad blkB2) 7) = None"
  using GetBlock_nil_iff [of "exChain exStoreBad blkB2" "[2]" 7]
  by (simp add: exChain_def exStoreBad_def exStore_def lru_New_def lru_Contains_def)

text \<open>
  C5 as stated fails: an I/O error of the store, and a record that does not decode, each
  come back from \<^verbatim>\<open>GetBlock\<close> as nil, as a missing key does; so does an I/O error on the
  index entry from \<^verbatim>\<open>GetBlockByHeight\<close>.
\<close>

theorem GetBlock_error_counterexample:
  "Get_block exStoreBad [1] = Inl (ErrStorageIO 5)
   \<and> fst (GetBlock (exChain exStoreBad blkB2) [1]) = None
   \<and> LoadBlockFromStorage [2] exStoreBad = Inl (ErrEncoding 0)
   \<and> fst (GetBlock (exChain exStoreBad blkB2) [2]) = None
   \<and> Get_height exStoreBad 1 = Inl (ErrStorageIO 5)
   \<and> fst (GetBlockByHeight (exChain exStoreBad blkB2) 1) = None"
  by (simp add: Get_block_def Get_height_def LoadBlockFromStorage_def GetBlock_def
        GetBlockByHeight_def lru_Get_def exChain_def exStoreBad_def exStore_def lru_New_def)

subsection \<open>\<^verbatim>\<open>putVerifiedNewBlocks\<close>: the detached tails\<close>

lemma putVerifiedNewBlocks_all_detached:
  "detachedTailBlocks (snd (putVerifiedNewBlocks_all co bc vs)) = detachedTailBlocks bc"
  by (induction vs arbitrary: bc) (auto simp: Let_def split: sum.splits)

lemma putVerifiedNewBlocks_tails_foldl:
  "putVerifiedNewBlocks_tails c vs = foldl (\<lambda>c v. lru_ContainsOrAdd c (Hex (hash v)) v) c vs"
  by (induction vs arbitrary: c) auto

lemma lru_Remove_not_Contains: "\<not> lru_Contains (lru_Remove c k) k"
  by (auto simp: lru_Contains_def lru_Remove_def)

text \<open>
  C6, as the code has it. A call that returns no error has first inserted every tail block
  (\<^verbatim>\<open>ContainsOrAdd\<close>, in the order of \<^verbatim>\<open>tailBlocks\<close>) and then removed the parent's key,
  so the parent's key is never in the set afterwards. A call that returns an error has
  left the set as it was.
\<close>

theorem putVerifiedNewBlocks_detached_order:
  assumes "putVerifiedNewBlocks co bc parent allBlocks tailBlocks = (r, bc')"
  shows "(r = None \<longrightarrow>
            detachedTailBlocks bc' =
              lru_Remove
                (foldl (\<lambda>c v. lru_ContainsOrAdd c (Hex (hash v)) v) (detachedTailBlocks bc) tailBlocks)
                (Hex (hash parent))
            \<and> \<not> lru_Contains (detachedTailBlocks bc') (Hex (hash parent)))
       \<and> (\<forall>err. r = Some err \<longrightarrow> detachedTailBlocks bc' = detachedTailBlocks bc)"
proof (cases "putVerifiedNewBlocks_all co bc allBlocks")
  case (Pair r1 bc1)
  have d: "detachedTailBlocks bc1 = detachedTailBlocks bc"
    using putVerifiedNewBlocks_all_detached [of co bc allBlocks] Pair by simp
  show ?thesis
  proof (cases r1)
    case None
    with Pair assms d show ?thesis
      by (auto simp: putVerifiedNewBlocks_def Let_def putVerifiedNewBlocks_tails_foldl
            lru_Remove_not_Contains)
  next
    case (Some e)
    with Pair assms d show ?thesis
      by (auto simp: putVerifiedNewBlocks_def)
  qed
qed

theorem putVerifiedNewBlocks_detached_order_witness:
  "fst (putVerifiedNewBlocks exCollab (exChain exStore blkB2) blkG [blkC1, blkC2] [blkC2]) = None
   \<and> \<not> lru_Contains
        (detachedTailBlocks
          (snd (putVerifiedNewBlocks exCollab (exChain exStore blkB2) blkG [blkC1, blkC2] [blkC2])))
        (Hex (hash blkG))"
proof -
  have b: "fst (putVerifiedNewBlocks exCollab (exChain exStore blkB2) blkG [blkC1, blkC2] [blkC2]) = None"
    by code_simp
  from putVerifiedNewBlocks_detached_order [OF surjective_pairing] b show ?thesis
    by blast
qed

text \<open>
  C6 as stated fails: the order matters when the set is full. With 64 tails in the set,
  the parent among them, and one new tail, the code's insertion evicts the least recently
  used tail (hash 163) before the parent is removed; removing the parent first, as the
  specification words it, would have kept that tail.
\<close>

theorem putVerifiedNewBlocks_detached_order_counterexample:
  "fst (putVerifiedNewBlocks exCollab ((exChain exStoreG blkG)\<lparr>detachedTailBlocks := exFullTails\<rparr>)
             (mkBlock 100 0 1) [mkBlock 200 100 2] [mkBlock 200 100 2]) = None
   \<and> \<not> lru_Contains
         (detachedTailBlocks
           (snd (putVerifiedNewBlocks exCollab
                  ((exChain exStoreG blkG)\<lparr>detachedTailBlocks := exFullTails\<rparr>)
                  (mkBlock 100 0 1) [mkBlock 200 100 2] [mkBlock 200 100 2])))
         (Hex [163])
   \<and> lru_Contains (specDetachedUpdate exFullTails (mkBlock 100 0 1) [mkBlock 200 100 2])
         (Hex [163])"
  by code_simp

subsection \<open>\<^verbatim>\<open>putVerifiedNewBlocks\<close>: the cache and the store\<close>

lemma set_butlast_subset: "set (butlast xs) \<subseteq> set xs"
  by (induction xs) auto

lemma lru_ContainsOrAdd_entries:
  "set (entries (lru_ContainsOrAdd c k v)) \<subseteq> insert (k, v) (set (entries c))"
proof -
  have "set (butlast ((k, v) # filter (\<lambda>e. fst e \<noteq> k) (entries c)))
        \<subseteq> set ((k, v) # filter (\<lambda>e. fst e \<noteq> k) (entries c))"
    by (rule set_butlast_subset)
  then show ?thesis
    by (auto simp: lru_ContainsOrAdd_def lru_Add_def Let_def)
qed

lemma storeBlockToStorage_Inr:
  "storeBlockToStorage co s v = Inr s' \<Longrightarrow>
     blockRecords s' = (blockRecords s)(hash v \<mapsto> Marshalled v)"
  by (auto simp: storeBlockToStorage_def Put_block_def split: option.splits)

lemma storedBlock_update:
  "storedBlock (s\<lparr>blockRecords := (blockRecords s)(hash v \<mapsto> Marshalled v)\<rparr>) b
     = (hash b = hash v \<or> storedBlock s b)"
  by (auto simp: storedBlock_def)

lemma storedBlock_iff:
  "storedBlock s b = (\<exists>b'. blockRecords s (hash b) = Some (Marshalled b') \<and> hash b' = hash b)"
proof (cases "blockRecords s (hash b)")
  case None
  then show ?thesis by (simp add: storedBlock_def)
next
  case (Some r)
  then show ?thesis by (cases r) (simp_all add: storedBlock_def)
qed

lemma putVerifiedNewBlocks_all_cached:
  "cachedInStorage bc \<Longrightarrow> putVerifiedNewBlocks_all co bc vs = (None, bc') \<Longrightarrow>
     cachedInStorage bc'"
proof (induction vs arbitrary: bc)
  case Nil
  then show ?case by simp
next
  case (Cons v vs)
  let ?c = "lru_ContainsOrAdd (cachedBlocks bc) (Hex (hash v)) v"
  let ?bc1 = "bc\<lparr>cachedBlocks := ?c\<rparr>"
  have sub: "set (entries ?c) \<subseteq> insert (Hex (hash v), v) (set (entries (cachedBlocks bc)))"
    by (rule lru_ContainsOrAdd_entries)
  have old: "\<forall>e \<in> set (entries (cachedBlocks bc)). storedBlock (storage bc) (snd e)"
    using Cons.prems(1) by (simp add: cachedInStorage_def list_all_iff)
  show ?case
  proof (cases "storeBlockToStorage co (storage bc) v")
    case (Inl err)
    then show ?thesis
      using Cons.prems(2) by (simp add: Let_def)
  next
    case (Inr s)
    then have rec: "putVerifiedNewBlocks_all co (?bc1\<lparr>storage := s\<rparr>) vs = (None, bc')"
      using Cons.prems(2) by (simp add: Let_def)
    have "s = (storage bc)\<lparr>blockRecords := (blockRecords (storage bc))(hash v \<mapsto> Marshalled v)\<rparr>"
      using Inr by (auto simp: storeBlockToStorage_def Put_block_def split: option.splits)
    then have st: "storedBlock s b = (hash b = hash v \<or> storedBlock (storage bc) b)" for b
      using storedBlock_update [of "storage bc" v b] by simp
    have "cachedInStorage (?bc1\<lparr>storage := s\<rparr>)"
      using sub old by (auto simp: cachedInStorage_def list_all_iff st)
    from Cons.IH [OF this rec] show ?thesis .
  qed
qed

lemma GetBlock_cachedInStorage: "cachedInStorage bc \<Longrightarrow> cachedInStorage (snd (GetBlock bc h))"
  using lru_Get_set [of "cachedBlocks bc" "Hex h"]
  by (auto simp: GetBlock_eq touch_def cachedInStorage_def list_all_iff)

text \<open>
  C8, as the code has it. If for every cached block the store holds a record that decodes
  to a block of the same hash, then so it is after a \<^verbatim>\<open>putVerifiedNewBlocks\<close> call that
  returns no error, and after a \<^verbatim>\<open>GetBlock\<close>; and every block of \<^verbatim>\<open>allBlocks\<close> that
  such a call leaves in the cache can be loaded from the store.
\<close>

theorem putVerifiedNewBlocks_cache_in_storage:
  assumes "cachedInStorage bc"
    and "putVerifiedNewBlocks co bc parent allBlocks tailBlocks = (None, bc')"
  shows "cachedInStorage bc' \<and> cachedInStorage (snd (GetBlock bc' h))
       \<and> (\<forall>e \<in> set (entries (cachedBlocks bc')).
            \<exists>b. blockRecords (storage bc') (hash (snd e)) = Some (Marshalled b)
                 \<and> hash b = hash (snd e))"
proof (cases "putVerifiedNewBlocks_all co bc allBlocks")
  case (Pair r1 bc1)
  have r1: "r1 = None"
    using Pair assms(2) by (cases r1) (auto simp: putVerifiedNewBlocks_def)
  then have same: "cachedBlocks bc' = cachedBlocks bc1" "storage bc' = storage bc1"
    using Pair assms(2) by (auto simp: putVerifiedNewBlocks_def Let_def)
  have "cachedInStorage bc1"
    using putVerifiedNewBlocks_all_cached [OF assms(1)] Pair r1 by simp
  then have c: "cachedInStorage bc'"
    using same by (simp add: cachedInStorage_def)
  then have "\<forall>e \<in> set (entries (cachedBlocks bc')).
            \<exists>b. blockRecords (storage bc') (hash (snd e)) = Some (Marshalled b)
                 \<and> hash b = hash (snd e)"
    by (simp add: cachedInStorage_def list_all_iff storedBlock_iff)
  with c show ?thesis by (simp add: GetBlock_cachedInStorage)
qed

lemma fst_None_pair: "fst p = None \<Longrightarrow> p = (None, snd p)"
  by (cases p) simp

text \<open>
  The cache holds \<open>B2\<close>, which is stored; the call adds \<open>C1\<close> and \<open>C2\<close>, which are not
  yet in the store. Afterwards the cache holds all three and each can be loaded.
\<close>

theorem putVerifiedNewBlocks_cache_in_storage_witness:
  "cachedInStorage exChainCached
   \<and> blockRecords (storage exChainCached) (hash blkC1) = None
   \<and> fst (putVerifiedNewBlocks exCollab exChainCached blkG [blkC1, blkC2] [blkC2]) = None
   \<and> map fst (entries (cachedBlocks
        (snd (putVerifiedNewBlocks exCollab exChainCached blkG [blkC1, blkC2] [blkC2]))))
       = [Hex (hash blkC2), Hex (hash blkC1), Hex (hash blkB2)]
   \<and> cachedInStorage
        (snd (putVerifiedNewBlocks exCollab exChainCached blkG [blkC1, blkC2] [blkC2]))"
proof -
  have a: "cachedInStorage exChainCached"
    by code_simp
  have b: "fst (putVerifiedNewBlocks exCollab exChainCached blkG [blkC1, blkC2] [blkC2]) = None"
    by code_simp
  have c: "blockRecords (storage exChainCached) (hash blkC1) = None"
    by code_simp
  have d: "map fst (entries (cachedBlocks
        (snd (putVerifiedNewBlocks exCollab exChainCached blkG [blkC1, blkC2] [blkC2]))))
       = [Hex (hash blkC2), Hex (hash blkC1), Hex (hash blkB2)]"
    by code_simp
  from putVerifiedNewBlocks_cache_in_storage [OF a fst_None_pair [OF b]] a b c d show ?thesis
    by blast
qed

text \<open>
  C8 as stated fails after a call that fails: the block is put into the cache before it
  is written, and the call returns at the failed write. Here the write of \<open>B1\<close> is an I/O
  error: \<open>B1\<close> is cached and the store has no record of it.
\<close>

theorem putVerifiedNewBlocks_cache_in_storage_counterexample:
  "cachedInStorage (exChain exStoreNoPut blkG)
   \<and> fst (putVerifiedNewBlocks exCollab (exChain exStoreNoPut blkG) blkG [blkB1] [blkB1])
       = Some (ErrStorageIO 9)
   \<and> lru_Contains
        (cachedBlocks (snd (putVerifiedNewBlocks exCollab (exChain exStoreNoPut blkG) blkG [blkB1] [blkB1])))
        (Hex (hash blkB1))
   \<and> blockRecords
        (storage (snd (putVerifiedNewBlocks exCollab (exChain exStoreNoPut blkG) blkG [blkB1] [blkB1])))
        (hash blkB1) = None
   \<and> \<not> cachedInStorage
        (snd (putVerifiedNewBlocks exCollab (exChain exStoreNoPut blkG) blkG [blkB1] [blkB1]))"
  by code_simp

end
